theory Spec2Isabelle
  imports Complex_Main
begin

section \<open>Strings and numbers of the host language\<close>

text \<open>
  A string is a list of code units. \<open>endsWith\<close> is \<open>String.prototype.endsWith\<close>;
  \<open>replace_first\<close> is \<open>String.prototype.replace\<close> with a string pattern, which
  replaces the first occurrence only (an empty pattern matches at position 0).
\<close>

definition endsWith :: "string \<Rightarrow> string \<Rightarrow> bool" where
  "endsWith s suf = (length suf \<le> length s \<and> drop (length s - length suf) s = suf)"

fun replace_first :: "string \<Rightarrow> string \<Rightarrow> string \<Rightarrow> string" where
  "replace_first pat rep [] = (if pat = [] then rep else [])"
| "replace_first pat rep (c # cs) =
     (if take (length pat) (c # cs) = pat then rep @ drop (length pat) (c # cs)
      else c # replace_first pat rep cs)"

text \<open>
  The value of \<open>a / b\<close> on two integral numbers. Division by zero gives the three
  special values of the language. A finite quotient is written \<open>Num q\<close> with \<open>q\<close> the
  exact quotient, which the division rounds to the nearest double: an integer
  quotient, such as \<open>8192 / -1\<close>, is that double itself. Rounding is monotone and
  \<open>0\<close> and \<open>1\<close> are doubles, so that a quotient lies in \<open>[0, 1]\<close>, or is at most
  another, when the exact values say so.
\<close>

datatype jsnum = Num rat | PosInfinity | NegInfinity | NaN

definition js_div :: "int \<Rightarrow> int \<Rightarrow> jsnum" where
  "js_div a b =
     (if b = 0 then (if a = 0 then NaN else if 0 < a then PosInfinity else NegInfinity)
      else Num (of_int a / of_int b))"

section \<open>Data model\<close>

text \<open>The interface \<open>Model\<close> of \<open>types/index.ts\<close>; the date is a clock reading.\<close>

record Model =
  m_id :: string
  m_name :: string
  m_path :: string
  m_size :: nat
  m_dateDownloaded :: nat

text \<open>
  Errors, one constructor for each \<open>throw\<close> of \<open>utils/fileSystem.ts\<close> and one for a
  rejection that comes out of the native file-system layer.
\<close>

datatype error =
    AlreadyExists string
  | BadStatus int
  | DoesNotExist string
  | NativeError string

section \<open>The native layer: file system, transfers, identifiers\<close>

datatype node = File nat | Dir

text \<open>An entry of a directory listing (\<open>ReadDirItem\<close>).\<close>

record ReadDirItem =
  rd_name :: string
  rd_path :: string
  rd_size :: nat
  rd_isFile :: bool

text \<open>
  What one \<open>downloadFile\<close> does: the progress events it reports, as pairs
  \<open>(bytesWritten, contentLength)\<close>, the file it leaves at the destination (\<open>None\<close>
  when it writes nothing), and how its promise settles: rejected, or resolved with an
  HTTP status code.
\<close>

record transfer =
  progress_events :: "(int \<times> int) list"
  file_left :: "nat option"
  outcome :: "error + int"

text \<open>
  The answers of the native layer during one operation: a fault of \<open>mkdir\<close>,
  \<open>stat\<close> or \<open>unlink\<close> (\<open>None\<close> when the call works), the result of \<open>readDir\<close>,
  the transfer, the identifiers \<open>uuidv4\<close> hands out and the clock.
\<close>

record env =
  mkdir_fault :: "error option"
  stat_fault :: "error option"
  unlink_fault :: "error option"
  listing :: "error + ReadDirItem list"
  xfer :: transfer
  uuidv4 :: "nat \<Rightarrow> string"
  now :: nat

text \<open>
  The observable world: the files by absolute path, the URLs requested over the
  network so far, and the values handed to the progress callback so far.
\<close>

record world =
  files :: "string \<rightharpoonup> node"
  requests :: "string list"
  progress_log :: "jsnum list"

record platform =
  OS :: string
  DocumentDirectoryPath :: string
  ExternalDirectoryPath :: string

definition RNFS_exists :: "world \<Rightarrow> string \<Rightarrow> bool" where
  "RNFS_exists w p = (files w p \<noteq> None)"

definition RNFS_mkdir :: "env \<Rightarrow> string \<Rightarrow> world \<Rightarrow> (error + unit) \<times> world" where
  "RNFS_mkdir e p w =
     (case mkdir_fault e of
        Some err \<Rightarrow> (Inl err, w)
      | None \<Rightarrow> (Inr (), w\<lparr>files := (files w)(p \<mapsto> Dir)\<rparr>))"

text \<open>
  \<open>unlink\<close> removes a file, and a directory together with everything below it:
  \<open>below dir p\<close> says that the path \<open>p\<close> lies below the directory \<open>dir\<close>, and
  \<open>removed fs p\<close> is the file system after the removal of \<open>p\<close>.
\<close>

definition below :: "string \<Rightarrow> string \<Rightarrow> bool" where
  "below dir p = (take (length dir + 1) p = dir @ ''/'')"

definition removed :: "(string \<rightharpoonup> node) \<Rightarrow> string \<Rightarrow> (string \<rightharpoonup> node)" where
  "removed fs p =
     (case fs p of
        Some Dir \<Rightarrow> (\<lambda>q. if q = p \<or> below p q then None else fs q)
      | _ \<Rightarrow> fs(p := None))"

definition RNFS_unlink :: "env \<Rightarrow> string \<Rightarrow> world \<Rightarrow> (error + unit) \<times> world" where
  "RNFS_unlink e p w =
     (case unlink_fault e of
        Some err \<Rightarrow> (Inl err, w)
      | None \<Rightarrow>
          (if files w p = None then (Inl (NativeError ''File does not exist''), w)
           else (Inr (), w\<lparr>files := removed (files w) p\<rparr>)))"

definition RNFS_stat :: "env \<Rightarrow> world \<Rightarrow> string \<Rightarrow> error + nat" where
  "RNFS_stat e w p =
     (case stat_fault e of
        Some err \<Rightarrow> Inl err
      | None \<Rightarrow>
          (case files w p of
             None \<Rightarrow> Inl (NativeError ''File does not exist'')
           | Some (File n) \<Rightarrow> Inr n
           | Some Dir \<Rightarrow> Inr 0))"

section \<open>utils/fileSystem.ts\<close>

definition getModelsDirectory :: "platform \<Rightarrow> string" where
  "getModelsDirectory pf =
     (let baseDir = (if OS pf = ''ios'' then DocumentDirectoryPath pf
                     else ExternalDirectoryPath pf)
      in baseDir @ ''/gguf-models'')"

definition ensureModelsDirectory :: "platform \<Rightarrow> env \<Rightarrow> world \<Rightarrow> (error + unit) \<times> world" where
  "ensureModelsDirectory pf e w =
     (let modelsDir = getModelsDirectory pf in
      if \<not> RNFS_exists w modelsDir then RNFS_mkdir e modelsDir w else (Inr (), w))"

text \<open>
  \<open>deleteGGUFModel\<close>: the \<open>catch\<close> block logs the error and throws it again, so every
  error of the \<open>try\<close> block is the error of the call.
\<close>

definition deleteGGUFModel :: "env \<Rightarrow> string \<Rightarrow> world \<Rightarrow> (error + bool) \<times> world" where
  "deleteGGUFModel e modelPath w =
     (if \<not> RNFS_exists w modelPath then (Inl (DoesNotExist modelPath), w)
      else (case RNFS_unlink e modelPath w of
              (Inl err, w') \<Rightarrow> (Inl err, w')
            | (Inr _, w') \<Rightarrow> (Inr True, w')))"

text \<open>
  \<open>getDownloadedModels\<close>. The loop over the listing, with the list \<open>models\<close> built so
  far; the \<open>k\<close>-th call of \<open>uuidv4\<close> returns \<open>uuidv4 e k\<close>, and \<open>file.size || 0\<close>
  is \<open>0\<close> for a size that is \<open>0\<close>.
\<close>

fun scan_loop :: "env \<Rightarrow> ReadDirItem list \<Rightarrow> Model list \<Rightarrow> Model list" where
  "scan_loop e [] models = models"
| "scan_loop e (file # rest) models =
     (if endsWith (rd_name file) ''.gguf''
      then scan_loop e rest
             (models @
              [\<lparr>m_id = uuidv4 e (length models),
                m_name = replace_first ''.gguf'' '''' (rd_name file),
                m_path = rd_path file,
                m_size = (if rd_size file = 0 then 0 else rd_size file),
                m_dateDownloaded = now e\<rparr>])
      else scan_loop e rest models)"

definition getDownloadedModels :: "platform \<Rightarrow> env \<Rightarrow> world \<Rightarrow> (error + Model list) \<times> world" where
  "getDownloadedModels pf e w =
     (case ensureModelsDirectory pf e w of
        (Inl err, w') \<Rightarrow> (Inl err, w')
      | (Inr _, w') \<Rightarrow>
          (case listing e of
             Inl err \<Rightarrow> (Inr [], w')
           | Inr fs \<Rightarrow> (Inr (scan_loop e fs []), w')))"

text \<open>
  \<open>downloadGGUFModel\<close>. The progress handler passes \<open>bytesWritten / contentLength\<close> to
  the caller's callback, which is recorded in \<open>progress_log\<close>.
\<close>

definition sanitizedModelName :: "string \<Rightarrow> string" where
  "sanitizedModelName modelName =
     (if endsWith modelName ''.gguf'' then modelName else modelName @ ''.gguf'')"

definition destPath :: "platform \<Rightarrow> string \<Rightarrow> string" where
  "destPath pf modelName = getModelsDirectory pf @ ''/'' @ sanitizedModelName modelName"

definition RNFS_downloadFile :: "env \<Rightarrow> string \<Rightarrow> string \<Rightarrow> world \<Rightarrow> (error + int) \<times> world" where
  "RNFS_downloadFile e fromUrl toFile w =
     (outcome (xfer e),
      w\<lparr>files := (case file_left (xfer e) of
                     None \<Rightarrow> files w
                   | Some n \<Rightarrow> (files w)(toFile \<mapsto> File n)),
        requests := requests w @ [fromUrl],
        progress_log := progress_log w @
           map (\<lambda>(bytesWritten, contentLength). js_div bytesWritten contentLength)
               (progress_events (xfer e))\<rparr>)"

definition download_try ::
    "env \<Rightarrow> string \<Rightarrow> string \<Rightarrow> string \<Rightarrow> world \<Rightarrow> (error + Model) \<times> world" where
  "download_try e url modelName dest w =
     (case RNFS_downloadFile e url dest w of
        (Inl err, w') \<Rightarrow> (Inl err, w')
      | (Inr statusCode, w') \<Rightarrow>
          (if statusCode \<noteq> 200 then (Inl (BadStatus statusCode), w')
           else (case RNFS_stat e w' dest of
                   Inl err \<Rightarrow> (Inl err, w')
                 | Inr sz \<Rightarrow>
                     (Inr \<lparr>m_id = uuidv4 e 0, m_name = modelName, m_path = dest,
                           m_size = sz, m_dateDownloaded = now e\<rparr>, w'))))"

definition download_catch :: "env \<Rightarrow> string \<Rightarrow> error \<Rightarrow> world \<Rightarrow> (error + Model) \<times> world" where
  "download_catch e dest err w =
     (if RNFS_exists w dest
      then (case RNFS_unlink e dest w of
              (Inl err', w') \<Rightarrow> (Inl err', w')
            | (Inr _, w') \<Rightarrow> (Inl err, w'))
      else (Inl err, w))"

definition downloadGGUFModel ::
    "platform \<Rightarrow> env \<Rightarrow> string \<Rightarrow> string \<Rightarrow> world \<Rightarrow> (error + Model) \<times> world" where
  "downloadGGUFModel pf e url modelName w =
     (case ensureModelsDirectory pf e w of
        (Inl err, w1) \<Rightarrow> (Inl err, w1)
      | (Inr _, w1) \<Rightarrow>
          (if RNFS_exists w1 (destPath pf modelName)
           then (Inl (AlreadyExists (sanitizedModelName modelName)), w1)
           else (case download_try e url modelName (destPath pf modelName) w1 of
                   (Inr model, w2) \<Rightarrow> (Inr model, w2)
                 | (Inl err, w2) \<Rightarrow> download_catch e (destPath pf modelName) err w2)))"

section \<open>App.tsx and components/ModelDownloader.tsx: the catalog in memory\<close>


text \<open>\<open>handleModelDelete\<close> logs a failed deletion and leaves the list as it is.\<close>

definition handleModelDelete :: "env \<Rightarrow> Model \<Rightarrow> Model list \<times> world \<Rightarrow> Model list \<times> world" where
  "handleModelDelete e model st =
     (case deleteGGUFModel e (m_path model) (snd st) of
        (Inr _, w') \<Rightarrow> (filter (\<lambda>m. m_id m \<noteq> m_id model) (fst st), w')
      | (Inl err, w') \<Rightarrow> (fst st, w'))"


section \<open>Vocabulary of the properties\<close>

text \<open>
  The extension stripped from the end of a file name, and the number of times a name
  carries the extension at its end.
\<close>

definition strip_extension :: "string \<Rightarrow> string" where
  "strip_extension s = (if endsWith s ''.gguf'' then take (length s - 5) s else s)"

function trailing_exts :: "string \<Rightarrow> nat" where
  "trailing_exts s =
     (if endsWith s ''.gguf'' then Suc (trailing_exts (take (length s - 5) s)) else 0)"
  by pat_completeness auto
termination
  by (relation "measure length") (auto simp: endsWith_def)

declare trailing_exts.simps [simp del]

text \<open>
  Progress values: the range \<open>[0.0, 1.0]\<close>, the order \<open>\<le>\<close> of the language (false
  whenever a side is \<open>NaN\<close>), and a sequence that is non-decreasing and in range.
\<close>

definition in_unit :: "jsnum \<Rightarrow> bool" where
  "in_unit v = (case v of Num q \<Rightarrow> 0 \<le> q \<and> q \<le> 1 | _ \<Rightarrow> False)"

fun js_le :: "jsnum \<Rightarrow> jsnum \<Rightarrow> bool" where
  "js_le NaN _ = False"
| "js_le _ NaN = False"
| "js_le (Num p) (Num q) = (p \<le> q)"
| "js_le NegInfinity _ = True"
| "js_le _ PosInfinity = True"
| "js_le _ _ = False"

definition progress_ok :: "jsnum list \<Rightarrow> bool" where
  "progress_ok vs = (sorted_wrt js_le vs \<and> list_all in_unit vs)"

text \<open>
  A transfer that reports one positive content length throughout, and byte counts that
  never decrease and stay between \<open>0\<close> and that length.
\<close>

definition steady :: "int \<Rightarrow> (int \<times> int) list \<Rightarrow> bool" where
  "steady len evs =
     (0 < len \<and> list_all (\<lambda>(b, c). c = len \<and> 0 \<le> b \<and> b \<le> len) evs \<and>
      sorted (map fst evs))"

text \<open>
  The catalog and the disk agree: every record's path exists, and every file below the
  models directory whose name ends in the extension has a record. Records are unique
  when no two share an identifier or a path.
\<close>

definition artifact_path :: "platform \<Rightarrow> string \<Rightarrow> bool" where
  "artifact_path pf p =
     (let root = getModelsDirectory pf @ ''/''
      in take (length root) p = root \<and> endsWith (drop (length root) p) ''.gguf'')"

definition consistent :: "platform \<Rightarrow> Model list \<Rightarrow> (string \<rightharpoonup> node) \<Rightarrow> bool" where
  "consistent pf store fs =
     ((\<forall>m \<in> set store. fs (m_path m) \<noteq> None) \<and>
      (\<forall>p n. fs p = Some (File n) \<and> artifact_path pf p \<longrightarrow> p \<in> m_path ` set store))"

definition unique_records :: "Model list \<Rightarrow> bool" where
  "unique_records store = (distinct (map m_id store) \<and> distinct (map m_path store))"

text \<open>
  What a download that fails for the reason \<open>cause\<close> after its request leaves behind:
  the request has been sent; if the transfer left a partial file and its removal fails,
  the error of the removal is the error of the call and the partial file is still
  there; otherwise the error of the call is \<open>cause\<close> and there is no file under the
  destination name.
\<close>

definition cleaned_up :: "platform \<Rightarrow> env \<Rightarrow> string \<Rightarrow> string \<Rightarrow> world \<Rightarrow> error \<Rightarrow> bool" where
  "cleaned_up pf e url n w cause =
     (let r = downloadGGUFModel pf e url n w; dest = destPath pf n in
      requests (snd r) = requests w @ [url] \<and>
      (case (file_left (xfer e), unlink_fault e) of
         (Some k, Some uerr) \<Rightarrow> fst r = Inl uerr \<and> files (snd r) dest = Some (File k)
       | _ \<Rightarrow> fst r = Inl cause \<and> files (snd r) dest = None))"

section \<open>Concrete inputs\<close>

definition model_url :: string where
  "model_url = ''https://example.com/model.gguf''"

text \<open>A transfer of 1000 bytes in two chunks of 600 and 400.\<close>

definition two_chunks :: env where
  "two_chunks =
     \<lparr>mkdir_fault = None, stat_fault = None, unlink_fault = None, listing = Inr [],
      xfer = \<lparr>progress_events = [(600, 1000), (1000, 1000)], file_left = Some 1000,
               outcome = Inr 200\<rparr>,
      uuidv4 = (\<lambda>k. replicate (Suc k) CHR ''u''), now = 0\<rparr>"

text \<open>A transfer that breaks after 600 bytes; the partial file is there.\<close>

definition broken_transfer :: transfer where
  "broken_transfer =
     \<lparr>progress_events = [(600, 1000)], file_left = Some 600,
      outcome = Inl (NativeError ''Network request failed'')\<rparr>"

definition broken :: env where
  "broken =
     \<lparr>mkdir_fault = None, stat_fault = None, unlink_fault = None, listing = Inr [],
      xfer = broken_transfer, uuidv4 = (\<lambda>k. replicate (Suc k) CHR ''u''), now = 0\<rparr>"

text \<open>The same, and the removal of the partial file fails as well.\<close>

definition broken_stuck :: env where
  "broken_stuck =
     \<lparr>mkdir_fault = None, stat_fault = None,
      unlink_fault = Some (NativeError ''EACCES''), listing = Inr [],
      xfer = broken_transfer, uuidv4 = (\<lambda>k. replicate (Suc k) CHR ''u''), now = 0\<rparr>"

text \<open>
  A complete transfer from a server that sends no \<open>Content-Length\<close>: the native layer
  reports the length as \<open>-1\<close>.
\<close>

definition no_length :: env where
  "no_length =
     \<lparr>mkdir_fault = None, stat_fault = None, unlink_fault = None, listing = Inr [],
      xfer = \<lparr>progress_events = [(8192, - 1)], file_left = Some 8192, outcome = Inr 200\<rparr>,
      uuidv4 = (\<lambda>k. replicate (Suc k) CHR ''u''), now = 0\<rparr>"

definition entry :: "string \<Rightarrow> nat \<Rightarrow> bool \<Rightarrow> ReadDirItem" where
  "entry nm sz isfile =
     \<lparr>rd_name = nm, rd_path = ''/ext/gguf-models/'' @ nm, rd_size = sz, rd_isFile = isfile\<rparr>"


definition world_a :: world where
  "world_a = \<lparr>files = [''/ext/gguf-models'' \<mapsto> Dir, ''/ext/gguf-models/a.gguf'' \<mapsto> File 7],
              requests = [], progress_log = []\<rparr>"

definition world_root :: world where
  "world_root = \<lparr>files = [''/ext/gguf-models'' \<mapsto> Dir], requests = [], progress_log = []\<rparr>"

definition android :: platform where
  "android = \<lparr>OS = ''android'', DocumentDirectoryPath = ''/doc'', ExternalDirectoryPath = ''/ext''\<rparr>"

definition quiet_transfer :: transfer where
  "quiet_transfer = \<lparr>progress_events = [], file_left = None, outcome = Inr 200\<rparr>"

definition sound_env :: env where
  "sound_env = \<lparr>mkdir_fault = None, stat_fault = None, unlink_fault = None,
                listing = Inr [], xfer = quiet_transfer,
                uuidv4 = (\<lambda>k. replicate (Suc k) CHR ''u''), now = 0\<rparr>"

definition empty_world :: world where
  "empty_world = \<lparr>files = Map.empty, requests = [], progress_log = []\<rparr>"

text \<open>
  Two listings of the models directory: three files, one with another extension; and
  the same with a subdirectory whose name ends in the extension.
\<close>

definition with_subdir :: env where
  "with_subdir =
     \<lparr>mkdir_fault = None, stat_fault = None, unlink_fault = None,
      listing = Inr [entry ''a.gguf'' 3 True, entry ''b.gguf'' 4 True,
                     entry ''notes.txt'' 5 True, entry ''sub.gguf'' 0 False],
      xfer = quiet_transfer, uuidv4 = (\<lambda>k. replicate (Suc k) CHR ''u''), now = 0\<rparr>"

definition three_entries :: env where
  "three_entries =
     \<lparr>mkdir_fault = None, stat_fault = None, unlink_fault = None,
      listing = Inr [entry ''a.gguf'' 3 True, entry ''b.gguf'' 4 True,
                     entry ''notes.txt'' 5 True],
      xfer = quiet_transfer, uuidv4 = (\<lambda>k. replicate (Suc k) CHR ''u''), now = 0\<rparr>"

text \<open>A transfer that the server answers with status 404 and a body of 9 bytes.\<close>

definition not_found :: env where
  "not_found =
     \<lparr>mkdir_fault = None, stat_fault = None, unlink_fault = None, listing = Inr [],
      xfer = \<lparr>progress_events = [(9, 9)], file_left = Some 9, outcome = Inr 404\<rparr>,
      uuidv4 = (\<lambda>k. replicate (Suc k) CHR ''u''), now = 0\<rparr>"

text \<open>
  A directory \<open>sub.gguf\<close> in the models directory, with a file below it, and the
  records of both.
\<close>

definition record_sub :: Model where
  "record_sub = \<lparr>m_id = ''id-sub'', m_name = ''sub'', m_path = ''/ext/gguf-models/sub.gguf'',
                 m_size = 0, m_dateDownloaded = 0\<rparr>"

definition record_x :: Model where
  "record_x = \<lparr>m_id = ''id-x'', m_name = ''sub.gguf/x'',
               m_path = ''/ext/gguf-models/sub.gguf/x.gguf'',
               m_size = 5, m_dateDownloaded = 0\<rparr>"

definition world_sub :: world where
  "world_sub = \<lparr>files = [''/ext/gguf-models'' \<mapsto> Dir, ''/ext/gguf-models/sub.gguf'' \<mapsto> Dir,
                         ''/ext/gguf-models/sub.gguf/x.gguf'' \<mapsto> File 5],
                requests = [], progress_log = []\<rparr>"

section \<open>Deleting\<close>

text \<open>
  C10. Whenever \<open>deleteGGUFModel\<close> returns normally its result is \<open>true\<close>: it never
  returns \<open>false\<close>, and a target that is absent is reported by raising an error.
\<close>

theorem deleteGGUFModel_only_true:
  "(\<forall>b w'. deleteGGUFModel e p w = (Inr b, w') \<longrightarrow> b) \<and>
   (\<not> RNFS_exists w p \<longrightarrow> (\<exists>err. fst (deleteGGUFModel e p w) = Inl err))"
  by (auto simp: deleteGGUFModel_def split: prod.splits sum.splits if_splits)

theorem deleteGGUFModel_only_true_witness:
  "deleteGGUFModel sound_env ''/ext/gguf-models/a.gguf''
     (empty_world\<lparr>files := [''/ext/gguf-models/a.gguf'' \<mapsto> File 7]\<rparr>)
     = (Inr True, empty_world\<lparr>files := Map.empty\<rparr>) \<and>
   \<not> RNFS_exists empty_world ''/ext/gguf-models/a.gguf'' \<and>
   (\<exists>err. fst (deleteGGUFModel sound_env ''/ext/gguf-models/a.gguf'' empty_world) = Inl err)"
  using deleteGGUFModel_only_true [of sound_env "''/ext/gguf-models/a.gguf''" empty_world]
  by (simp add: deleteGGUFModel_def RNFS_exists_def RNFS_unlink_def removed_def sound_env_def
      empty_world_def)

lemma removed_self: "removed fs p p = None"
  by (simp add: removed_def split: option.splits node.splits)

lemma removed_file: "fs p = Some (File k) \<Longrightarrow> removed fs p = fs(p := None)"
  by (simp add: removed_def)

lemma removed_not_dir: "fs p \<noteq> Some Dir \<Longrightarrow> removed fs p = fs(p := None)"
  by (simp add: removed_def split: option.splits node.splits)



text \<open>
  C1 (as the code has it). For a path whose file does not exist, \<open>deleteGGUFModel\<close>
  raises the error "does not exist" and leaves the world as it was; for a path that
  exists, it raises exactly when the removal itself fails, with the error of the
  removal, and otherwise removes what is at the path (a file; a directory with all
  below it), so that the path no longer exists, and returns \<open>true\<close>.
\<close>

theorem deleteGGUFModel_absent_raises:
  "(\<not> RNFS_exists w p \<longrightarrow> deleteGGUFModel e p w = (Inl (DoesNotExist p), w)) \<and>
   (RNFS_exists w p \<longrightarrow>
      deleteGGUFModel e p w =
        (case unlink_fault e of
           Some err \<Rightarrow> (Inl err, w)
         | None \<Rightarrow> (Inr True, w\<lparr>files := removed (files w) p\<rparr>)) \<and>
      (unlink_fault e = None \<longrightarrow> \<not> RNFS_exists (snd (deleteGGUFModel e p w)) p) \<and>
      (\<forall>k. files w p = Some (File k) \<and> unlink_fault e = None \<longrightarrow>
         files (snd (deleteGGUFModel e p w)) = (files w)(p := None)))"
  by (auto simp: deleteGGUFModel_def RNFS_exists_def RNFS_unlink_def removed_self removed_file
      split: option.splits)

theorem deleteGGUFModel_absent_raises_witness:
  "\<not> RNFS_exists empty_world ''/ext/gguf-models/a.gguf'' \<and>
   deleteGGUFModel sound_env ''/ext/gguf-models/a.gguf'' empty_world
     = (Inl (DoesNotExist ''/ext/gguf-models/a.gguf''), empty_world) \<and>
   RNFS_exists (empty_world\<lparr>files := [''/ext/gguf-models/a.gguf'' \<mapsto> File 7]\<rparr>)
     ''/ext/gguf-models/a.gguf'' \<and>
   deleteGGUFModel sound_env ''/ext/gguf-models/a.gguf''
     (empty_world\<lparr>files := [''/ext/gguf-models/a.gguf'' \<mapsto> File 7]\<rparr>)
     = (Inr True, empty_world)"
  using deleteGGUFModel_absent_raises
          [of empty_world "''/ext/gguf-models/a.gguf''" sound_env]
        deleteGGUFModel_absent_raises
          [of "empty_world\<lparr>files := [''/ext/gguf-models/a.gguf'' \<mapsto> File 7]\<rparr>"
              "''/ext/gguf-models/a.gguf''" sound_env]
  by (simp add: RNFS_exists_def removed_def sound_env_def empty_world_def)

text \<open>
  The claim as the specification words it (an absent file gives a "not found" outcome
  without raising) fails: on a world without files the call raises.
\<close>

theorem deleteGGUFModel_absent_counterexample:
  "\<not> RNFS_exists empty_world ''/ext/gguf-models/a.gguf'' \<and>
   fst (deleteGGUFModel sound_env ''/ext/gguf-models/a.gguf'' empty_world)
     = Inl (DoesNotExist ''/ext/gguf-models/a.gguf'')"
  by (simp add: deleteGGUFModel_def RNFS_exists_def empty_world_def)

section \<open>Downloading\<close>

lemmas download_defs =
  downloadGGUFModel_def ensureModelsDirectory_def download_try_def download_catch_def
  RNFS_downloadFile_def RNFS_stat_def RNFS_exists_def RNFS_mkdir_def RNFS_unlink_def
  getModelsDirectory_def destPath_def sanitizedModelName_def endsWith_def js_div_def Let_def

lemmas concrete_defs =
  android_def sound_env_def quiet_transfer_def empty_world_def model_url_def two_chunks_def
  broken_transfer_def broken_def broken_stuck_def no_length_def world_a_def world_root_def
  not_found_def

lemma ensure_keeps:
  "ensureModelsDirectory pf e w = (r, w1) \<Longrightarrow>
     requests w1 = requests w \<and> progress_log w1 = progress_log w \<and>
     (\<forall>p. files w p \<noteq> None \<longrightarrow> files w1 p = files w p) \<and>
     (\<forall>p n. files w1 p = Some (File n) \<longrightarrow> files w p = Some (File n))"
  by (auto simp: ensureModelsDirectory_def RNFS_mkdir_def RNFS_exists_def Let_def
      split: if_splits option.splits)

lemma ensure_failed: "ensureModelsDirectory pf e w = (Inl err, w1) \<Longrightarrow> w1 = w"
  by (auto simp: ensureModelsDirectory_def RNFS_mkdir_def Let_def split: if_splits option.splits)

lemma downloadFile_world:
  "RNFS_downloadFile e url dest w = (r, w2) \<Longrightarrow>
     r = outcome (xfer e) \<and>
     requests w2 = requests w @ [url] \<and>
     progress_log w2 = progress_log w @ map (\<lambda>(b, c). js_div b c) (progress_events (xfer e)) \<and>
     files w2 = (case file_left (xfer e) of None \<Rightarrow> files w
                 | Some k \<Rightarrow> (files w)(dest \<mapsto> File k))"
  by (auto simp: RNFS_downloadFile_def)

lemma try_world:
  "download_try e url n dest w = (r, w2) \<Longrightarrow> w2 = snd (RNFS_downloadFile e url dest w)"
  by (auto simp: download_try_def split: prod.splits sum.splits if_splits)

lemma try_success:
  "download_try e url n dest w = (Inr m, w2) \<Longrightarrow>
     RNFS_stat e w2 dest = Inr (m_size m) \<and> m_path m = dest \<and> m_id m = uuidv4 e 0 \<and>
     m_name m = n"
  by (auto simp: download_try_def split: prod.splits sum.splits if_splits)

lemma stat_file: "RNFS_stat e w p = Inr k \<Longrightarrow> files w p = None \<Longrightarrow> False"
  by (auto simp: RNFS_stat_def split: option.splits)

lemma stat_size: "RNFS_stat e w p = Inr k \<Longrightarrow> files w p = Some (File j) \<Longrightarrow> j = k"
  by (auto simp: RNFS_stat_def split: option.splits)

lemma catch_world:
  "download_catch e dest err w2 = (r, w3) \<Longrightarrow>
     (\<exists>err'. r = Inl err') \<and> requests w3 = requests w2 \<and> progress_log w3 = progress_log w2 \<and>
     (unlink_fault e = None \<longrightarrow> files w3 dest = None) \<and>
     (unlink_fault e = None \<and> files w2 dest \<noteq> Some Dir \<longrightarrow> files w3 = (files w2)(dest := None))"
  by (auto simp: download_catch_def RNFS_unlink_def RNFS_exists_def removed_self
      removed_not_dir split: if_splits option.splits)

lemma download_cases:
  assumes "downloadGGUFModel pf e url n w = (r, w')"
  obtains
    (mkdir_failed) err where "r = Inl err" "w' = w"
  | (collision) "RNFS_exists w' (destPath pf n)" "r = Inl (AlreadyExists (sanitizedModelName n))"
      "ensureModelsDirectory pf e w = (Inr (), w')"
  | (success) w1 m where "ensureModelsDirectory pf e w = (Inr (), w1)"
      "\<not> RNFS_exists w1 (destPath pf n)" "r = Inr m"
      "download_try e url n (destPath pf n) w1 = (Inr m, w')"
  | (failed) w1 w2 err where "ensureModelsDirectory pf e w = (Inr (), w1)"
      "\<not> RNFS_exists w1 (destPath pf n)"
      "download_try e url n (destPath pf n) w1 = (Inl err, w2)"
      "download_catch e (destPath pf n) err w2 = (r, w')"
proof (cases "ensureModelsDirectory pf e w")
  case (Pair r1 w1)
  show ?thesis
  proof (cases r1)
    case (Inl err)
    with Pair assms have "r = Inl err" "w' = w"
      by (auto simp: downloadGGUFModel_def dest: ensure_failed)
    then show ?thesis by (rule mkdir_failed)
  next
    case (Inr u)
    show ?thesis
    proof (cases "RNFS_exists w1 (destPath pf n)")
      case True
      with Pair Inr assms show ?thesis
        by (intro collision) (auto simp: downloadGGUFModel_def)
    next
      case False
      obtain r2 w2 where t: "download_try e url n (destPath pf n) w1 = (r2, w2)"
        by (cases "download_try e url n (destPath pf n) w1")
      show ?thesis
      proof (cases r2)
        case (Inl err)
        with Pair Inr False t assms show ?thesis
          by (intro failed [of w1 err w2]) (auto simp: downloadGGUFModel_def)
      next
        case (Inr m)
        with Pair \<open>r1 = Inr u\<close> False t assms show ?thesis
          by (intro success [of w1 m]) (auto simp: downloadGGUFModel_def)
      qed
    qed
  qed
qed

lemma two_chunks_run:
  "downloadGGUFModel android two_chunks model_url ''model'' empty_world =
     (Inr \<lparr>m_id = ''u'', m_name = ''model'', m_path = ''/ext/gguf-models/model.gguf'',
           m_size = 1000, m_dateDownloaded = 0\<rparr>,
      \<lparr>files = [''/ext/gguf-models'' \<mapsto> Dir, ''/ext/gguf-models/model.gguf'' \<mapsto> File 1000],
       requests = [model_url], progress_log = [Num (3 / 5), Num 1]\<rparr>)"
  by (simp add: download_defs concrete_defs)

text \<open>
  C4. A download whose normalized destination name already exists as a file in the
  models directory fails with the name-collision error before anything else happens:
  the world is returned as it was, so no request has been sent, no file has changed
  and the progress callback has not been called.
\<close>

theorem downloadGGUFModel_collision:
  "RNFS_exists w (getModelsDirectory pf) \<Longrightarrow> RNFS_exists w (destPath pf modelName) \<Longrightarrow>
   downloadGGUFModel pf e url modelName w
     = (Inl (AlreadyExists (sanitizedModelName modelName)), w)"
  by (simp add: downloadGGUFModel_def ensureModelsDirectory_def)

theorem downloadGGUFModel_collision_witness:
  "RNFS_exists world_a (getModelsDirectory android) \<and>
   RNFS_exists world_a (destPath android ''a'') \<and>
   downloadGGUFModel android two_chunks model_url ''a'' world_a
     = (Inl (AlreadyExists ''a.gguf''), world_a) \<and>
   requests world_a = []"
proof -
  have h1: "RNFS_exists world_a (getModelsDirectory android)"
    by (simp add: RNFS_exists_def getModelsDirectory_def android_def world_a_def)
  have h2: "RNFS_exists world_a (destPath android ''a'')"
    by (simp add: RNFS_exists_def destPath_def getModelsDirectory_def sanitizedModelName_def
        endsWith_def android_def world_a_def)
  have h3: "sanitizedModelName ''a'' = ''a.gguf''"
    by (simp add: sanitizedModelName_def endsWith_def)
  from downloadGGUFModel_collision [OF h1 h2, of two_chunks model_url] h1 h2 h3
  show ?thesis by (simp add: world_a_def)
qed

text \<open>
  C8. After a successful download a file exists under the normalized destination name,
  the record points at it, and the record's size is the size of that file as the
  finished transfer left it (the size is read after the transfer has settled).
  Downloading 1000 bytes in two chunks yields a record of size 1000.
\<close>

theorem downloadGGUFModel_success_size:
  assumes "downloadGGUFModel pf e url modelName w = (Inr m, w')"
  shows "m_path m = destPath pf modelName \<and>
     files w' (destPath pf modelName) = Some (File (m_size m)) \<and>
     file_left (xfer e) = Some (m_size m)"
  using assms
proof (cases rule: download_cases)
  case (success w1 m')
  then have t: "download_try e url modelName (destPath pf modelName) w1 = (Inr m, w')" by simp
  from try_success [OF t] have st: "RNFS_stat e w' (destPath pf modelName) = Inr (m_size m)"
    and p: "m_path m = destPath pf modelName" by simp_all
  from try_world [OF t] have w': "w' = snd (RNFS_downloadFile e url (destPath pf modelName) w1)" .
  have fl: "files w' = (case file_left (xfer e) of None \<Rightarrow> files w1
                 | Some k \<Rightarrow> (files w1)(destPath pf modelName \<mapsto> File k))"
    using downloadFile_world [of e url "destPath pf modelName" w1] w'
    by (cases "RNFS_downloadFile e url (destPath pf modelName) w1") simp
  from success(2) have none: "files w1 (destPath pf modelName) = None"
    by (simp add: RNFS_exists_def)
  show ?thesis
  proof (cases "file_left (xfer e)")
    case None
    with fl none have "files w' (destPath pf modelName) = None" by simp
    with st show ?thesis by (auto dest: stat_file)
  next
    case (Some k)
    with fl have f: "files w' (destPath pf modelName) = Some (File k)" by simp
    from stat_size [OF st f] have "k = m_size m" .
    with f p Some show ?thesis by simp
  qed
next
  case (failed w1 w2 err)
  from catch_world [OF failed(4)] show ?thesis by simp
qed simp_all

theorem downloadGGUFModel_success_size_witness:
  "fst (downloadGGUFModel android two_chunks model_url ''model'' empty_world) =
     Inr \<lparr>m_id = ''u'', m_name = ''model'', m_path = ''/ext/gguf-models/model.gguf'',
           m_size = 1000, m_dateDownloaded = 0\<rparr> \<and>
   files (snd (downloadGGUFModel android two_chunks model_url ''model'' empty_world))
     ''/ext/gguf-models/model.gguf'' = Some (File 1000) \<and>
   file_left (xfer two_chunks) = Some 1000"
  using downloadGGUFModel_success_size [OF two_chunks_run] two_chunks_run
  by (simp add: destPath_def)

lemma dest_not_root: "destPath pf n \<noteq> getModelsDirectory pf"
  by (simp add: destPath_def)

lemma ensure_ready:
  assumes "RNFS_exists w (getModelsDirectory pf) \<or> mkdir_fault e = None"
  shows "\<exists>w1. ensureModelsDirectory pf e w = (Inr (), w1) \<and> requests w1 = requests w \<and>
           progress_log w1 = progress_log w \<and>
           (\<forall>p. p \<noteq> getModelsDirectory pf \<longrightarrow> files w1 p = files w p)"
  using assms
  by (auto simp: ensureModelsDirectory_def RNFS_mkdir_def RNFS_exists_def Let_def)

lemma started_run:
  assumes free: "\<not> RNFS_exists w (destPath pf n)"
    and ready: "RNFS_exists w (getModelsDirectory pf) \<or> mkdir_fault e = None"
  obtains w1 where "requests w1 = requests w" and "files w1 (destPath pf n) = None"
    and "downloadGGUFModel pf e url n w =
           (case download_try e url n (destPath pf n) w1 of
              (Inr model, w2) \<Rightarrow> (Inr model, w2)
            | (Inl err, w2) \<Rightarrow> download_catch e (destPath pf n) err w2)"
proof -
  from ensure_ready [OF ready] obtain w1
    where en: "ensureModelsDirectory pf e w = (Inr (), w1)"
      and rq: "requests w1 = requests w"
      and fl: "\<forall>p. p \<noteq> getModelsDirectory pf \<longrightarrow> files w1 p = files w p"
    by blast
  from fl dest_not_root [of pf n] free have none: "files w1 (destPath pf n) = None"
    by (simp add: RNFS_exists_def)
  from en none have "downloadGGUFModel pf e url n w =
           (case download_try e url n (destPath pf n) w1 of
              (Inr model, w2) \<Rightarrow> (Inr model, w2)
            | (Inl err, w2) \<Rightarrow> download_catch e (destPath pf n) err w2)"
    by (simp add: downloadGGUFModel_def RNFS_exists_def)
  with rq none show thesis by (rule that)
qed

lemma cleaned_up_after:
  assumes free: "\<not> RNFS_exists w (destPath pf n)"
    and ready: "RNFS_exists w (getModelsDirectory pf) \<or> mkdir_fault e = None"
    and tr: "\<And>w1. files w1 (destPath pf n) = None \<Longrightarrow>
               fst (download_try e url n (destPath pf n) w1) = Inl cause"
  shows "cleaned_up pf e url n w cause"
proof -
  from free ready obtain w1 where rq: "requests w1 = requests w"
    and none: "files w1 (destPath pf n) = None"
    and run: "downloadGGUFModel pf e url n w =
           (case download_try e url n (destPath pf n) w1 of
              (Inr model, w2) \<Rightarrow> (Inr model, w2)
            | (Inl err, w2) \<Rightarrow> download_catch e (destPath pf n) err w2)"
    by (rule started_run)
  define w2 where "w2 = snd (RNFS_downloadFile e url (destPath pf n) w1)"
  have t: "download_try e url n (destPath pf n) w1 = (Inl cause, w2)"
    using tr [OF none] try_world [of e url n "destPath pf n" w1]
    by (cases "download_try e url n (destPath pf n) w1") (simp add: w2_def)
  with run have r: "downloadGGUFModel pf e url n w = download_catch e (destPath pf n) cause w2"
    by simp
  have rq2: "requests w2 = requests w @ [url]"
    by (simp add: w2_def RNFS_downloadFile_def rq)
  have f2: "files w2 (destPath pf n) = map_option File (file_left (xfer e))"
    using none by (simp add: w2_def RNFS_downloadFile_def split: option.splits)
  show ?thesis
  proof (cases "file_left (xfer e)")
    case None
    with f2 have "download_catch e (destPath pf n) cause w2 = (Inl cause, w2)"
      by (simp add: download_catch_def RNFS_exists_def)
    with r rq2 f2 None show ?thesis by (simp add: cleaned_up_def)
  next
    case (Some k)
    show ?thesis
    proof (cases "unlink_fault e")
      case None
      with f2 Some
      have "download_catch e (destPath pf n) cause w2
              = (Inl cause, w2\<lparr>files := removed (files w2) (destPath pf n)\<rparr>)"
        by (simp add: download_catch_def RNFS_exists_def RNFS_unlink_def)
      with r rq2 Some None show ?thesis by (simp add: cleaned_up_def removed_self)
    next
      case (Some uerr)
      with f2 \<open>file_left (xfer e) = Some k\<close>
      have "download_catch e (destPath pf n) cause w2 = (Inl uerr, w2)"
        by (simp add: download_catch_def RNFS_exists_def RNFS_unlink_def)
      with r rq2 f2 Some \<open>file_left (xfer e) = Some k\<close> show ?thesis
        by (simp add: cleaned_up_def)
    qed
  qed
qed

text \<open>
  C3 (as the code has it). A download that has passed the collision check and then
  fails, because the transfer is rejected (network or write error), because the HTTP
  status is not 200, or because the size of the file cannot be read, has sent its
  request and removes the file under the destination name, if there is one, before it
  surfaces the error. When the transfer left no file, or the removal works, the error
  of the failure is surfaced and no file is left under the destination name. When the
  removal of the partial file itself fails, the error of the removal is surfaced
  instead and the partial file stays.
\<close>

theorem downloadGGUFModel_failure_cleanup:
  assumes free: "\<not> RNFS_exists w (destPath pf n)"
    and ready: "RNFS_exists w (getModelsDirectory pf) \<or> mkdir_fault e = None"
  shows "(\<forall>err. outcome (xfer e) = Inl err \<longrightarrow> cleaned_up pf e url n w err) \<and>
         (\<forall>status. outcome (xfer e) = Inr status \<and> status \<noteq> 200
            \<longrightarrow> cleaned_up pf e url n w (BadStatus status)) \<and>
         (\<forall>err. outcome (xfer e) = Inr 200 \<and> stat_fault e = Some err
            \<longrightarrow> cleaned_up pf e url n w err) \<and>
         (outcome (xfer e) = Inr 200 \<and> stat_fault e = None \<and> file_left (xfer e) = None
            \<longrightarrow> cleaned_up pf e url n w (NativeError ''File does not exist''))"
proof (intro conjI allI impI)
  fix err assume "outcome (xfer e) = Inl err"
  then show "cleaned_up pf e url n w err"
    by (intro cleaned_up_after [OF free ready])
       (simp add: download_try_def RNFS_downloadFile_def)
next
  fix status assume "outcome (xfer e) = Inr status \<and> status \<noteq> 200"
  then show "cleaned_up pf e url n w (BadStatus status)"
    by (intro cleaned_up_after [OF free ready])
       (simp add: download_try_def RNFS_downloadFile_def)
next
  fix err assume "outcome (xfer e) = Inr 200 \<and> stat_fault e = Some err"
  then show "cleaned_up pf e url n w err"
    by (intro cleaned_up_after [OF free ready])
       (simp add: download_try_def RNFS_downloadFile_def RNFS_stat_def)
next
  assume "outcome (xfer e) = Inr 200 \<and> stat_fault e = None \<and> file_left (xfer e) = None"
  then show "cleaned_up pf e url n w (NativeError ''File does not exist'')"
    by (intro cleaned_up_after [OF free ready])
       (simp add: download_try_def RNFS_downloadFile_def RNFS_stat_def)
qed

theorem downloadGGUFModel_failure_cleanup_witness:
  "\<not> RNFS_exists world_root (destPath android ''model'') \<and>
   RNFS_exists world_root (getModelsDirectory android) \<and>
   outcome (xfer broken) = Inl (NativeError ''Network request failed'') \<and>
   fst (downloadGGUFModel android broken model_url ''model'' world_root)
     = Inl (NativeError ''Network request failed'') \<and>
   files (snd (downloadGGUFModel android broken model_url ''model'' world_root))
     (destPath android ''model'') = None \<and>
   outcome (xfer not_found) = Inr 404 \<and>
   fst (downloadGGUFModel android not_found model_url ''model'' world_root)
     = Inl (BadStatus 404) \<and>
   files (snd (downloadGGUFModel android not_found model_url ''model'' world_root))
     (destPath android ''model'') = None \<and>
   requests (snd (downloadGGUFModel android not_found model_url ''model'' world_root))
     = [model_url]"
proof -
  have free: "\<not> RNFS_exists world_root (destPath android ''model'')"
    by (simp add: RNFS_exists_def destPath_def getModelsDirectory_def sanitizedModelName_def
        endsWith_def android_def world_root_def)
  have ready: "RNFS_exists world_root (getModelsDirectory android)"
    by (simp add: RNFS_exists_def getModelsDirectory_def android_def world_root_def)
  have o1: "outcome (xfer broken) = Inl (NativeError ''Network request failed'')"
    by (simp add: broken_def broken_transfer_def)
  have o2: "outcome (xfer not_found) = Inr 404 \<and> (404::int) \<noteq> 200"
    by (simp add: not_found_def)
  have l1: "file_left (xfer broken) = Some 600" "unlink_fault broken = None"
    by (simp_all add: broken_def broken_transfer_def)
  have l2: "file_left (xfer not_found) = Some 9" "unlink_fault not_found = None"
    by (simp_all add: not_found_def)
  have rq: "requests world_root = []" by (simp add: world_root_def)
  note t1 = downloadGGUFModel_failure_cleanup [OF free disjI1 [OF ready],
      of broken model_url, THEN conjunct1, THEN spec, THEN mp, OF o1]
  note t2 = downloadGGUFModel_failure_cleanup [OF free disjI1 [OF ready],
      of not_found model_url, THEN conjunct2, THEN conjunct1, THEN spec, THEN mp, OF o2]
  from t1 l1 have a: "fst (downloadGGUFModel android broken model_url ''model'' world_root)
     = Inl (NativeError ''Network request failed'') \<and>
     files (snd (downloadGGUFModel android broken model_url ''model'' world_root))
       (destPath android ''model'') = None"
    by (simp add: cleaned_up_def Let_def)
  from t2 l2 rq have b: "fst (downloadGGUFModel android not_found model_url ''model'' world_root)
     = Inl (BadStatus 404) \<and>
     files (snd (downloadGGUFModel android not_found model_url ''model'' world_root))
       (destPath android ''model'') = None \<and>
     requests (snd (downloadGGUFModel android not_found model_url ''model'' world_root))
       = [model_url]"
    by (simp add: cleaned_up_def Let_def)
  from free ready o1 o2 a b show ?thesis by blast
qed

text \<open>
  The claim as the specification words it (after every such failure no file exists
  under the destination name) fails when the removal of the partial file fails as
  well: the error of the removal is surfaced and the 600 bytes stay.
\<close>

theorem downloadGGUFModel_failure_counterexample:
  "fst (downloadGGUFModel android broken_stuck model_url ''model'' world_root)
     = Inl (NativeError ''EACCES'') \<and>
   requests (snd (downloadGGUFModel android broken_stuck model_url ''model'' world_root))
     = [model_url] \<and>
   files (snd (downloadGGUFModel android broken_stuck model_url ''model'' world_root))
     (destPath android ''model'') = Some (File 600)"
  by (simp add: download_defs concrete_defs)

lemma download_progress_shape:
  assumes "downloadGGUFModel pf e url n w = (r, w')"
  shows "(requests w' = requests w \<and> progress_log w' = progress_log w) \<or>
     (requests w' = requests w @ [url] \<and>
      progress_log w' = progress_log w @ map (\<lambda>(b, c). js_div b c) (progress_events (xfer e)))"
  using assms
proof (cases rule: download_cases)
  case (mkdir_failed err)
  then show ?thesis by simp
next
  case collision
  then show ?thesis by (auto dest: ensure_keeps)
next
  case (success w1 m)
  from try_world [OF success(4)]
  have "RNFS_downloadFile e url (destPath pf n) w1 = (outcome (xfer e), w')"
    by (simp add: RNFS_downloadFile_def)
  from downloadFile_world [OF this] ensure_keeps [OF success(1)] show ?thesis by simp
next
  case (failed w1 w2 err)
  from try_world [OF failed(3)]
  have "RNFS_downloadFile e url (destPath pf n) w1 = (outcome (xfer e), w2)"
    by (simp add: RNFS_downloadFile_def)
  from downloadFile_world [OF this] ensure_keeps [OF failed(1)] catch_world [OF failed(4)]
  show ?thesis by simp
qed






lemma steady_in_unit: "steady len evs \<Longrightarrow> list_all in_unit (map (\<lambda>(b, c). js_div b c) evs)"
  by (auto simp: steady_def list_all_iff in_unit_def js_div_def)

lemma steady_sorted: "steady len evs \<Longrightarrow> sorted_wrt js_le (map (\<lambda>(b, c). js_div b c) evs)"
proof (induction evs)
  case Nil
  then show ?case by simp
next
  case (Cons a evs)
  obtain b c where a: "a = (b, c)" by (cases a)
  from Cons.prems have st: "steady len evs" by (auto simp: steady_def)
  from Cons.prems a have c: "c = len" "0 < len" by (auto simp: steady_def)
  have "js_le (js_div b c) (js_div b' c')" if "(b', c') \<in> set evs" for b' c'
  proof -
    from that Cons.prems a have "c' = len" "b \<le> b'" by (auto simp: steady_def list_all_iff)
    with c show ?thesis by (simp add: js_div_def divide_right_mono)
  qed
  with Cons.IH [OF st] a show ?case by auto
qed

lemma steady_last:
  assumes "steady len evs" "evs \<noteq> []" "fst (last evs) = len"
  shows "last (map (\<lambda>(b, c). js_div b c) evs) = Num 1"
proof -
  have mem: "last evs \<in> set evs" using assms(2) by simp
  have "\<forall>x \<in> set evs. snd x = len" using assms(1) by (auto simp: steady_def list_all_iff)
  with mem have "snd (last evs) = len" by blast
  moreover have "0 < len" using assms(1) by (simp add: steady_def)
  ultimately show ?thesis using assms(2,3) by (simp add: last_map js_div_def split_beta)
qed

text \<open>
  What holds for a transfer of known length: when the transfer reports one positive
  content length and byte counts that never decrease and stay between 0 and that
  length, the values passed during the download are non-decreasing and lie in
  \<open>[0, 1]\<close>, and the last value is \<open>1\<close> when the last event reports all bytes written.
\<close>

lemma progress_of_steady_transfer:
  assumes run: "downloadGGUFModel pf e url n w = (r, w')"
    and st: "steady len (progress_events (xfer e))"
  shows "progress_ok (drop (length (progress_log w)) (progress_log w')) \<and>
         (requests w' \<noteq> requests w \<and> progress_events (xfer e) \<noteq> [] \<and>
          fst (last (progress_events (xfer e))) = len
            \<longrightarrow> last (progress_log w') = Num 1)"
proof -
  have 1: "progress_log w' = progress_log w @
           (if requests w' = requests w then []
            else map (\<lambda>(b, c). js_div b c) (progress_events (xfer e)))"
    using download_progress_shape [OF run] by auto
  have 2: "progress_ok (drop (length (progress_log w)) (progress_log w'))"
    using st 1 by (simp add: progress_ok_def steady_in_unit steady_sorted)
  have 3: "last (progress_log w') = Num 1"
    if "requests w' \<noteq> requests w"
       "progress_events (xfer e) \<noteq> []" "fst (last (progress_events (xfer e))) = len"
    using that st 1 steady_last [of len "progress_events (xfer e)"] by simp
  from 2 3 show ?thesis by blast
qed

text \<open>
  C9. The values passed to the progress callback are to lie in \<open>[0.0, 1.0]\<close>, and a
  successful download is to end at \<open>1.0\<close>. The handler divides by the content length
  without looking at it: for a download from a server that sends no content length,
  which the native layer reports as \<open>-1\<close>, the download succeeds, the only value
  passed is \<open>8192 / -1 = -8192\<close>, below the range, and no value \<open>1\<close> is ever passed.
\<close>

theorem progress_out_of_range:
  "progress_events (xfer no_length) = [(8192, - 1)] \<and>
   fst (downloadGGUFModel android no_length model_url ''model'' world_root) =
     Inr \<lparr>m_id = ''u'', m_name = ''model'', m_path = ''/ext/gguf-models/model.gguf'',
           m_size = 8192, m_dateDownloaded = 0\<rparr> \<and>
   progress_log (snd (downloadGGUFModel android no_length model_url ''model'' world_root))
     = [Num (- 8192)] \<and>
   \<not> in_unit (Num (- 8192)) \<and>
   \<not> progress_ok
       (progress_log (snd (downloadGGUFModel android no_length model_url ''model'' world_root))) \<and>
   last (progress_log (snd (downloadGGUFModel android no_length model_url ''model'' world_root)))
     \<noteq> Num 1"
  by (simp add: download_defs concrete_defs in_unit_def progress_ok_def)

section \<open>The catalog and the disk\<close>








text \<open>
  The proviso on directories is needed. The scan can list a directory, and a download
  under the name \<open>sub.gguf/x\<close> puts a file below it: catalog and disk agree, and the
  delete of the directory's record removes the file below it as well and leaves the
  record of that file behind.
\<close>

lemma delete_directory_record:
  "consistent android [record_sub, record_x] (files world_sub) \<and>
   unique_records [record_sub, record_x] \<and>
   below (m_path record_sub) (m_path record_x) \<and>
   fst (handleModelDelete sound_env record_sub ([record_sub, record_x], world_sub))
     = [record_x] \<and>
   files (snd (handleModelDelete sound_env record_sub ([record_sub, record_x], world_sub)))
     (m_path record_x) = None"
proof -
  have "consistent android [record_sub, record_x] (files world_sub)"
    by (auto simp: consistent_def world_sub_def record_sub_def record_x_def artifact_path_def
      getModelsDirectory_def android_def endsWith_def Let_def split: if_splits)
  moreover have "unique_records [record_sub, record_x]"
    by (simp add: unique_records_def record_sub_def record_x_def)
  moreover have "below (m_path record_sub) (m_path record_x)"
    by (simp add: below_def record_sub_def record_x_def)
  moreover have "handleModelDelete sound_env record_sub ([record_sub, record_x], world_sub)
      = ([record_x], world_sub\<lparr>files := removed (files world_sub) (m_path record_sub)\<rparr>)"
    by (simp add: handleModelDelete_def deleteGGUFModel_def RNFS_exists_def RNFS_unlink_def
        sound_env_def world_sub_def record_sub_def record_x_def)
  moreover have "removed (files world_sub) (m_path record_sub) (m_path record_x) = None"
    by (simp add: removed_def below_def world_sub_def record_sub_def record_x_def)
  ultimately show ?thesis by simp
qed


section \<open>Names\<close>

lemma endsWith_append: "endsWith (n @ suf) suf"
  by (simp add: endsWith_def)

lemma trailing_exts_append: "trailing_exts (n @ ''.gguf'') = Suc (trailing_exts n)"
  using trailing_exts.simps [of "n @ ''.gguf''"] endsWith_append [of n "''.gguf''"] by simp

lemma trailing_exts_zero: "\<not> endsWith n ''.gguf'' \<Longrightarrow> trailing_exts n = 0"
  by (simp add: trailing_exts.simps)

lemma trailing_exts_pos: "endsWith n ''.gguf'' \<Longrightarrow> 0 < trailing_exts n"
  by (subst trailing_exts.simps) simp

text \<open>
  C7 (as the code has it). The normalized name always ends in the extension; the
  extension is appended exactly when the requested name does not end in it, and a name
  that ends in it is returned unchanged. So the result carries the extension at its end
  as often as the request did, and at least once; normalizing twice changes nothing.
\<close>

theorem sanitizedModelName_extension:
  "endsWith (sanitizedModelName n) ''.gguf'' \<and>
   (endsWith n ''.gguf'' \<longrightarrow> sanitizedModelName n = n) \<and>
   (\<not> endsWith n ''.gguf'' \<longrightarrow> sanitizedModelName n = n @ ''.gguf'') \<and>
   trailing_exts (sanitizedModelName n) = max 1 (trailing_exts n) \<and>
   sanitizedModelName (sanitizedModelName n) = sanitizedModelName n"
proof (cases "endsWith n ''.gguf''")
  case True
  with trailing_exts_pos [OF True] show ?thesis by (simp add: sanitizedModelName_def)
next
  case False
  with trailing_exts_zero [OF False] show ?thesis
    by (simp add: sanitizedModelName_def endsWith_append trailing_exts_append)
qed

theorem sanitizedModelName_extension_witness:
  "\<not> endsWith ''model'' ''.gguf'' \<and> sanitizedModelName ''model'' = ''model.gguf'' \<and>
   trailing_exts (sanitizedModelName ''model'') = 1 \<and>
   endsWith ''model.gguf'' ''.gguf'' \<and> sanitizedModelName ''model.gguf'' = ''model.gguf'' \<and>
   trailing_exts (sanitizedModelName ''model.gguf'') = 1"
proof -
  have a: "\<not> endsWith ''model'' ''.gguf''" by (simp add: endsWith_def)
  have b: "endsWith ''model.gguf'' ''.gguf''" by (simp add: endsWith_def)
  have c: "trailing_exts ''model'' = 0" using a by (rule trailing_exts_zero)
  have d: "trailing_exts ''model.gguf'' = 1"
    using trailing_exts_append [of "''model''"] c by simp
  from sanitizedModelName_extension [of "''model''"]
       sanitizedModelName_extension [of "''model.gguf''"] a b c d
  show ?thesis by simp
qed

text \<open>
  The claim as the specification words it (the result carries the extension exactly
  once, also when the request carries it more than once) fails for \<open>a.gguf.gguf\<close>,
  which comes back unchanged and carries the extension twice.
\<close>

theorem sanitizedModelName_extension_counterexample:
  "sanitizedModelName ''a.gguf.gguf'' = ''a.gguf.gguf'' \<and>
   trailing_exts (sanitizedModelName ''a.gguf.gguf'') = 2"
proof -
  have "\<not> endsWith ''a'' ''.gguf''" by (simp add: endsWith_def)
  then have "trailing_exts ''a'' = 0" by (rule trailing_exts_zero)
  with trailing_exts_append [of "''a''"] trailing_exts_append [of "''a.gguf''"]
  have "trailing_exts ''a.gguf.gguf'' = 2" by simp
  then show ?thesis by (simp add: sanitizedModelName_def endsWith_def)
qed

section \<open>Scanning\<close>

lemma scan_loop_paths:
  "map m_path (scan_loop e fs models) =
     map m_path models @ map rd_path (filter (\<lambda>file. endsWith (rd_name file) ''.gguf'') fs)"
  by (induction fs arbitrary: models) simp_all

lemma scan_loop_names:
  "map m_name (scan_loop e fs models) =
     map m_name models @
     map (\<lambda>file. replace_first ''.gguf'' '''' (rd_name file))
       (filter (\<lambda>file. endsWith (rd_name file) ''.gguf'') fs)"
  by (induction fs arbitrary: models) simp_all

text \<open>
  The listing with the files \<open>a.gguf\<close>, \<open>b.gguf\<close> and \<open>notes.txt\<close> yields exactly
  two records, named \<open>a\<close> and \<open>b\<close>.
\<close>

lemma scan_three_entries:
  "fst (getDownloadedModels android three_entries world_root) =
     Inr [\<lparr>m_id = ''u'', m_name = ''a'', m_path = ''/ext/gguf-models/a.gguf'',
            m_size = 3, m_dateDownloaded = 0\<rparr>,
          \<lparr>m_id = ''uu'', m_name = ''b'', m_path = ''/ext/gguf-models/b.gguf'',
            m_size = 4, m_dateDownloaded = 0\<rparr>]"
  by (simp add: getDownloadedModels_def ensureModelsDirectory_def RNFS_exists_def
      getModelsDirectory_def android_def world_root_def three_entries_def entry_def
      endsWith_def Let_def)

text \<open>
  C5. The scan is to emit one record for each regular file whose name carries the
  extension and to skip subdirectories. The code tests the name only: for a listing
  that also holds the subdirectory \<open>sub.gguf\<close> it emits a third record, for the
  subdirectory.
\<close>

theorem scan_keeps_subdirectory:
  "listing with_subdir =
     Inr [entry ''a.gguf'' 3 True, entry ''b.gguf'' 4 True,
          entry ''notes.txt'' 5 True, entry ''sub.gguf'' 0 False] \<and>
   rd_isFile (entry ''sub.gguf'' 0 False) = False \<and>
   fst (getDownloadedModels android with_subdir world_root) =
     Inr [\<lparr>m_id = ''u'', m_name = ''a'', m_path = ''/ext/gguf-models/a.gguf'',
            m_size = 3, m_dateDownloaded = 0\<rparr>,
          \<lparr>m_id = ''uu'', m_name = ''b'', m_path = ''/ext/gguf-models/b.gguf'',
            m_size = 4, m_dateDownloaded = 0\<rparr>,
          \<lparr>m_id = ''uuu'', m_name = ''sub'', m_path = ''/ext/gguf-models/sub.gguf'',
            m_size = 0, m_dateDownloaded = 0\<rparr>]"
  by (simp add: getDownloadedModels_def ensureModelsDirectory_def RNFS_exists_def
      getModelsDirectory_def android_def world_root_def with_subdir_def entry_def
      endsWith_def Let_def)

text \<open>
  C6. The name of a record is to be the file name with the extension stripped from the
  end. A download requested under the name \<open>model.gguf\<close> writes the file
  \<open>model.gguf\<close> and returns a record named \<open>model.gguf\<close>, not \<open>model\<close>; and the
  scan removes the first occurrence of the extension, so the file \<open>a.gguf.b.gguf\<close>
  gets the name \<open>a.b.gguf\<close>, not \<open>a.gguf.b\<close>.
\<close>

theorem record_name_keeps_extension:
  "fst (downloadGGUFModel android two_chunks model_url ''model.gguf'' world_root) =
     Inr \<lparr>m_id = ''u'', m_name = ''model.gguf'', m_path = ''/ext/gguf-models/model.gguf'',
           m_size = 1000, m_dateDownloaded = 0\<rparr> \<and>
   strip_extension ''model.gguf'' = ''model'' \<and>
   map m_name (scan_loop sound_env [entry ''a.gguf.b.gguf'' 1 True] []) = [''a.b.gguf''] \<and>
   strip_extension ''a.gguf.b.gguf'' = ''a.gguf.b''"
  by (simp add: download_defs concrete_defs strip_extension_def entry_def)

end
